theory Spec2Isabelle
  imports Complex_Main
begin

section \<open>Numeric values of numpy and pandas\<close>

text \<open>
  Both scripts compute with numpy \<^verbatim>\<open>float64\<close> scalars: pandas' \<^verbatim>\<open>Series.mean()\<close>,
  \<^verbatim>\<open>np.mean\<close> and the true division of two numpy integers all return one. Division of
  such scalars follows IEEE 754 and never raises: a non-zero value over zero is an
  infinity and zero over zero is NaN (the warnings are switched off by
  \<^verbatim>\<open>warnings.filterwarnings('ignore')\<close>). The model keeps the three non-finite values
  apart from the finite ones; a finite value is an exact rational, so rounding to 53 bits
  and the sign of zero are not part of the model.
\<close>

datatype npfloat = Fl rat | PosInf | NegInf | NaN

fun is_finite :: "npfloat \<Rightarrow> bool" where
  "is_finite (Fl r) = True"
| "is_finite PosInf = False"
| "is_finite NegInf = False"
| "is_finite NaN = False"

text \<open>\<^verbatim>\<open>a / b\<close> on float64 scalars.\<close>

fun np_truediv :: "npfloat \<Rightarrow> npfloat \<Rightarrow> npfloat" where
  "np_truediv NaN y = NaN"
| "np_truediv (Fl a) NaN = NaN"
| "np_truediv PosInf NaN = NaN"
| "np_truediv NegInf NaN = NaN"
| "np_truediv (Fl a) (Fl b) =
     (if b = 0 then (if a = 0 then NaN else if 0 < a then PosInf else NegInf)
      else Fl (a / b))"
| "np_truediv (Fl a) PosInf = Fl 0"
| "np_truediv (Fl a) NegInf = Fl 0"
| "np_truediv PosInf (Fl b) = (if 0 \<le> b then PosInf else NegInf)"
| "np_truediv NegInf (Fl b) = (if 0 \<le> b then NegInf else PosInf)"
| "np_truediv PosInf PosInf = NaN"
| "np_truediv PosInf NegInf = NaN"
| "np_truediv NegInf PosInf = NaN"
| "np_truediv NegInf NegInf = NaN"

text \<open>\<^verbatim>\<open>a - b\<close> and \<^verbatim>\<open>abs(a)\<close>.\<close>

fun np_sub :: "npfloat \<Rightarrow> npfloat \<Rightarrow> npfloat" where
  "np_sub NaN y = NaN"
| "np_sub (Fl a) NaN = NaN"
| "np_sub PosInf NaN = NaN"
| "np_sub NegInf NaN = NaN"
| "np_sub (Fl a) (Fl b) = Fl (a - b)"
| "np_sub (Fl a) PosInf = NegInf"
| "np_sub (Fl a) NegInf = PosInf"
| "np_sub PosInf (Fl b) = PosInf"
| "np_sub NegInf (Fl b) = NegInf"
| "np_sub PosInf PosInf = NaN"
| "np_sub PosInf NegInf = PosInf"
| "np_sub NegInf PosInf = NegInf"
| "np_sub NegInf NegInf = NaN"

fun np_abs :: "npfloat \<Rightarrow> npfloat" where
  "np_abs (Fl a) = Fl \<bar>a\<bar>"
| "np_abs PosInf = PosInf"
| "np_abs NegInf = PosInf"
| "np_abs NaN = NaN"

text \<open>\<^verbatim>\<open>a < b\<close> and \<^verbatim>\<open>a > b\<close>: every comparison with NaN is false.\<close>

fun np_lt :: "npfloat \<Rightarrow> npfloat \<Rightarrow> bool" where
  "np_lt NaN y = False"
| "np_lt (Fl a) NaN = False"
| "np_lt PosInf NaN = False"
| "np_lt NegInf NaN = False"
| "np_lt (Fl a) (Fl b) = (a < b)"
| "np_lt (Fl a) PosInf = True"
| "np_lt (Fl a) NegInf = False"
| "np_lt PosInf y = False"
| "np_lt NegInf (Fl b) = True"
| "np_lt NegInf PosInf = True"
| "np_lt NegInf NegInf = False"

definition np_gt :: "npfloat \<Rightarrow> npfloat \<Rightarrow> bool" where
  "np_gt x y = np_lt y x"

text \<open>
  \<^verbatim>\<open>Series.mean()\<close> and \<^verbatim>\<open>np.mean\<close> of a column of integers: NaN for an empty column,
  the sum over the count otherwise.
\<close>

definition mean :: "int list \<Rightarrow> npfloat" where
  "mean xs = (if xs = [] then NaN else Fl (of_int (sum_list xs) / of_int (int (length xs))))"

text \<open>\<^verbatim>\<open>np.sum\<close> of a boolean array counts its true entries.\<close>

definition np_sum :: "bool list \<Rightarrow> int" where
  "np_sum bs = int (length (filter (\<lambda>b. b) bs))"

text \<open>The true division of two numpy integers, as in \<^verbatim>\<open>np.sum(...) / np.sum(...)\<close>.\<close>

definition int_truediv :: "int \<Rightarrow> int \<Rightarrow> npfloat" where
  "int_truediv a b = np_truediv (Fl (of_int a)) (Fl (of_int b))"

text \<open>Boolean-mask indexing \<^verbatim>\<open>xs[mask]\<close>.\<close>

definition mask_select :: "bool list \<Rightarrow> 'a list \<Rightarrow> 'a list" where
  "mask_select msk xs = map snd (filter fst (zip msk xs))"

text \<open>A rate is a finite value between 0 and 1.\<close>

fun in_unit :: "npfloat \<Rightarrow> bool" where
  "in_unit (Fl r) = (0 \<le> r \<and> r \<le> 1)"
| "in_unit PosInf = False"
| "in_unit NegInf = False"
| "in_unit NaN = False"

section \<open>The table\<close>

text \<open>
  A row of the cleaned table, with the columns the metric code reads: \<^verbatim>\<open>race\<close>,
  \<^verbatim>\<open>decile_score\<close> and the 0/1 column \<^verbatim>\<open>two_year_recid\<close> (\<open>True\<close> is 1). The column
  \<^verbatim>\<open>race_binary\<close> is derived from \<^verbatim>\<open>race\<close> when the table is cleaned.
\<close>

record row =
  race :: string
  decile_score :: int
  two_year_recid :: bool

definition race_binary :: "row \<Rightarrow> int" where
  "race_binary r = (if race r = ''African-American'' then 1 else 0)"

text \<open>
  The frame handed to \<^verbatim>\<open>analyze_bias\<close>: its rows, and the derived column
  \<^verbatim>\<open>high_risk\<close>, which the frame does not have (\<open>None\<close>) until \<^verbatim>\<open>analyze_bias\<close> assigns it.
\<close>

record dataframe =
  rows :: "row list"
  high_risk :: "int list option"

text \<open>The auditor object of the full script, after \<^verbatim>\<open>load_data\<close> has filled \<^verbatim>\<open>self.data\<close>.\<close>

record auditor =
  data :: "row list"

section \<open>The metric dictionaries\<close>

text \<open>
  Both scripts fill a dictionary under a fixed set of literal keys; each is a record with
  one field per key. The key \<^verbatim>\<open>disparate_impact\<close> is common to both.
\<close>

record metrics_base =
  disparate_impact :: npfloat

record metrics = metrics_base +
  selection_rate_aa :: npfloat
  selection_rate_other :: npfloat
  fpr_aa :: npfloat
  fpr_other :: npfloat
  tpr_aa :: npfloat
  tpr_other :: npfloat

record fairness_metrics = metrics_base +
  accuracy :: npfloat
  precision :: npfloat
  recall :: npfloat
  f1 :: npfloat
  tpr_african_american :: npfloat
  tpr_others :: npfloat
  fpr_african_american :: npfloat
  fpr_others :: npfloat
  tnr_african_american :: npfloat
  tnr_others :: npfloat
  selection_rate_african_american :: npfloat
  selection_rate_others :: npfloat
  tpr_difference :: npfloat
  fpr_difference :: npfloat

section \<open>The simplified script\<close>

definition high_risk_threshold :: int where
  "high_risk_threshold = 5"

text \<open>
  The decision of one row, \<^verbatim>\<open>(decile_score >= threshold).astype(int)\<close>: both scripts
  compute it with the same expression.
\<close>

definition high_risk_of :: "int \<Rightarrow> row \<Rightarrow> int" where
  "high_risk_of threshold r = (if threshold \<le> decile_score r then 1 else 0)"

text \<open>
  \<^verbatim>\<open>analyze_bias\<close>, with the local constant \<^verbatim>\<open>high_risk_threshold\<close> as a parameter. The
  function assigns the column \<^verbatim>\<open>high_risk\<close> of the frame it is given, so the frame is
  returned with the metrics. \<open>scored\<close> pairs every row with its entry of the new column;
  the two cohorts and their outcome subsets are row selections of it.
\<close>

definition analyze_bias_at :: "int \<Rightarrow> dataframe \<Rightarrow> metrics \<times> dataframe" where
  "analyze_bias_at threshold data0 =
    (let hr = map (high_risk_of threshold) (rows data0);
         data1 = data0\<lparr>high_risk := Some hr\<rparr>;
         scored = zip (rows data1) hr;
         aa_data = filter (\<lambda>(r, h). race r = ''African-American'') scored;
         other_data = filter (\<lambda>(r, h). race r \<noteq> ''African-American'') scored;
         sr_aa = mean (map snd aa_data);
         sr_other = mean (map snd other_data);
         aa_actual_no_recid = filter (\<lambda>(r, h). \<not> two_year_recid r) aa_data;
         other_actual_no_recid = filter (\<lambda>(r, h). \<not> two_year_recid r) other_data;
         aa_actual_recid = filter (\<lambda>(r, h). two_year_recid r) aa_data;
         other_actual_recid = filter (\<lambda>(r, h). two_year_recid r) other_data
     in (\<lparr>disparate_impact = np_truediv sr_aa sr_other,
          selection_rate_aa = sr_aa,
          selection_rate_other = sr_other,
          fpr_aa = (if 0 < length aa_actual_no_recid
                    then mean (map snd aa_actual_no_recid) else Fl 0),
          fpr_other = (if 0 < length other_actual_no_recid
                       then mean (map snd other_actual_no_recid) else Fl 0),
          tpr_aa = (if 0 < length aa_actual_recid
                    then mean (map snd aa_actual_recid) else Fl 0),
          tpr_other = (if 0 < length other_actual_recid
                       then mean (map snd other_actual_recid) else Fl 0)\<rparr>,
         data1))"

definition analyze_bias :: "dataframe \<Rightarrow> metrics \<times> dataframe" where
  "analyze_bias = analyze_bias_at high_risk_threshold"

text \<open>The two lines \<^verbatim>\<open>analyze_bias\<close> prints under "Bias Assessment".\<close>

definition bias_assessment_demographic_parity :: "metrics \<Rightarrow> string" where
  "bias_assessment_demographic_parity m =
    (if np_lt (disparate_impact m) (Fl (8 / 10)) \<or> np_gt (disparate_impact m) (Fl (12 / 10))
     then ''  WARNING: DEMOGRAPHIC PARITY VIOLATED (80%-125% rule)''
     else ''  OK: Demographic parity acceptable'')"


section \<open>The full script\<close>

text \<open>
  The scikit-learn scores on 0/1 labels with their default arguments
  (\<^verbatim>\<open>pos_label=1\<close>, \<^verbatim>\<open>zero_division="warn"\<close>): a score whose denominator is zero is 0.
\<close>

definition count_pairs :: "int \<Rightarrow> int \<Rightarrow> int list \<Rightarrow> int list \<Rightarrow> nat" where
  "count_pairs t p y_true y_pred = length (filter (\<lambda>(a, b). a = t \<and> b = p) (zip y_true y_pred))"

definition accuracy_score :: "int list \<Rightarrow> int list \<Rightarrow> npfloat" where
  "accuracy_score y_true y_pred = mean (map (\<lambda>(a, b). if a = b then 1 else 0) (zip y_true y_pred))"

definition precision_score :: "int list \<Rightarrow> int list \<Rightarrow> npfloat" where
  "precision_score y_true y_pred =
    (let tp = count_pairs 1 1 y_true y_pred; fp = count_pairs 0 1 y_true y_pred
     in if tp + fp = 0 then Fl 0 else Fl (of_nat tp / of_nat (tp + fp)))"

definition recall_score :: "int list \<Rightarrow> int list \<Rightarrow> npfloat" where
  "recall_score y_true y_pred =
    (let tp = count_pairs 1 1 y_true y_pred; fn = count_pairs 1 0 y_true y_pred
     in if tp + fn = 0 then Fl 0 else Fl (of_nat tp / of_nat (tp + fn)))"

definition f1_score :: "int list \<Rightarrow> int list \<Rightarrow> npfloat" where
  "f1_score y_true y_pred =
    (let tp = count_pairs 1 1 y_true y_pred; fp = count_pairs 0 1 y_true y_pred;
         fn = count_pairs 1 0 y_true y_pred
     in if 2 * tp + fp + fn = 0 then Fl 0 else Fl (of_nat (2 * tp) / of_nat (2 * tp + fp + fn)))"

text \<open>The false positive rate of lines 122 and 123, for one mask.\<close>

definition fpr_of :: "bool list \<Rightarrow> int list \<Rightarrow> int list \<Rightarrow> npfloat" where
  "fpr_of msk y_true y_pred =
    int_truediv
      (np_sum (map (\<lambda>(t, p). t = 0 \<and> p = 1) (zip (mask_select msk y_true) (mask_select msk y_pred))))
      (np_sum (map (\<lambda>t. t = 0) (mask_select msk y_true)))"

text \<open>
  \<^verbatim>\<open>CompasBiasAuditor.calculate_fairness_metrics\<close>, with the literal 5 of line 98 as a
  parameter. The method reads \<^verbatim>\<open>self.data\<close> and assigns no attribute; the auditor is
  returned with the metrics.
\<close>

definition calculate_fairness_metrics_at :: "int \<Rightarrow> auditor \<Rightarrow> fairness_metrics \<times> auditor" where
  "calculate_fairness_metrics_at threshold self =
    (let y_pred = map (high_risk_of threshold) (data self);
         y_true = map (\<lambda>r. if two_year_recid r then 1 else 0) (data self);
         race_labels = map race_binary (data self);
         african_american_mask = map (\<lambda>l. l = 1) race_labels;
         others_mask = map (\<lambda>l. l = 0) race_labels;
         tpr_aa = recall_score (mask_select african_american_mask y_true)
                    (mask_select african_american_mask y_pred);
         tpr_o = recall_score (mask_select others_mask y_true) (mask_select others_mask y_pred);
         fpr_aa = fpr_of african_american_mask y_true y_pred;
         fpr_o = fpr_of others_mask y_true y_pred;
         selection_rate_aa = mean (mask_select african_american_mask y_pred);
         selection_rate_o = mean (mask_select others_mask y_pred)
     in (\<lparr>disparate_impact =
            (if np_gt selection_rate_o (Fl 0) then np_truediv selection_rate_aa selection_rate_o
             else PosInf),
          accuracy = accuracy_score y_true y_pred,
          precision = precision_score y_true y_pred,
          recall = recall_score y_true y_pred,
          f1 = f1_score y_true y_pred,
          tpr_african_american = tpr_aa,
          tpr_others = tpr_o,
          fpr_african_american = fpr_aa,
          fpr_others = fpr_o,
          tnr_african_american = np_sub (Fl 1) fpr_aa,
          tnr_others = np_sub (Fl 1) fpr_o,
          selection_rate_african_american = selection_rate_aa,
          selection_rate_others = selection_rate_o,
          tpr_difference = np_abs (np_sub tpr_aa tpr_o),
          fpr_difference = np_abs (np_sub fpr_aa fpr_o)\<rparr>,
         self))"

definition calculate_fairness_metrics :: "auditor \<Rightarrow> fairness_metrics \<times> auditor" where
  "calculate_fairness_metrics = calculate_fairness_metrics_at 5"

text \<open>The two assessments \<^verbatim>\<open>generate_report\<close> interpolates into its report.\<close>

definition report_demographic_parity :: "fairness_metrics \<Rightarrow> string" where
  "report_demographic_parity m =
    (if np_lt (disparate_impact m) (Fl (8 / 10)) \<or> np_gt (disparate_impact m) (Fl (12 / 10))
     then ''VIOLATED'' else ''ACCEPTABLE'')"


section \<open>Populations\<close>

text \<open>
  The two cohorts of a table, the count of a cohort's rows in one cell of the confusion
  table (decision at a threshold, outcome), and the finite value \<open>k / n\<close>.
\<close>

definition african_american :: "row list \<Rightarrow> row list" where
  "african_american rs = filter (\<lambda>r. race r = ''African-American'') rs"

definition others :: "row list \<Rightarrow> row list" where
  "others rs = filter (\<lambda>r. race r \<noteq> ''African-American'') rs"

definition cell :: "int \<Rightarrow> bool \<Rightarrow> bool \<Rightarrow> row list \<Rightarrow> nat" where
  "cell threshold decision outcome rs =
     length (filter (\<lambda>r. (threshold \<le> decile_score r) = decision \<and> two_year_recid r = outcome) rs)"

definition rate :: "nat \<Rightarrow> nat \<Rightarrow> npfloat" where
  "rate k n = Fl (of_nat k / of_nat n)"

text \<open>A disparate impact that is a number in \<open>[0, \<infinity>)\<close> or the positive infinity.\<close>

definition nonneg_or_inf :: "npfloat \<Rightarrow> bool" where
  "nonneg_or_inf x = (case x of Fl r \<Rightarrow> 0 \<le> r | PosInf \<Rightarrow> True | NegInf \<Rightarrow> False | NaN \<Rightarrow> False)"

text \<open>
  A selection rate that has not increased: both values are finite and the new one is at
  most the old one, or both are NaN (the cohort is empty).
\<close>

definition not_increased :: "npfloat \<Rightarrow> npfloat \<Rightarrow> bool" where
  "not_increased old new =
     (case old of
        Fl p \<Rightarrow> (case new of Fl q \<Rightarrow> q \<le> p | PosInf \<Rightarrow> False | NegInf \<Rightarrow> False | NaN \<Rightarrow> False)
      | PosInf \<Rightarrow> False
      | NegInf \<Rightarrow> False
      | NaN \<Rightarrow> (case new of Fl q \<Rightarrow> False | PosInf \<Rightarrow> False | NegInf \<Rightarrow> False | NaN \<Rightarrow> True))"

text \<open>
  Two cohorts with identical decision and outcome distributions: both are non-empty, and
  every cell of the confusion table holds the same fraction of either cohort (the
  fractions are compared cross-multiplied).
\<close>

definition identical_distributions :: "int \<Rightarrow> row list \<Rightarrow> bool" where
  "identical_distributions threshold rs =
     (african_american rs \<noteq> [] \<and> others rs \<noteq> [] \<and>
      cell threshold True True (african_american rs) * length (others rs) =
        cell threshold True True (others rs) * length (african_american rs) \<and>
      cell threshold True False (african_american rs) * length (others rs) =
        cell threshold True False (others rs) * length (african_american rs) \<and>
      cell threshold False True (african_american rs) * length (others rs) =
        cell threshold False True (others rs) * length (african_american rs) \<and>
      cell threshold False False (african_american rs) * length (others rs) =
        cell threshold False False (others rs) * length (african_american rs))"

section \<open>Lists, masks and counts\<close>

lemma filter_zip_map:
  "filter (\<lambda>(r, h). P r) (zip rs (map f rs)) = zip (filter P rs) (map f (filter P rs))"
  by (induction rs) auto

lemma map_snd_zip_map: "map snd (zip rs (map f rs)) = map f rs"
  by (induction rs) auto

lemma mask_select_map: "mask_select (map P xs) (map f xs) = map f (filter P xs)"
  unfolding mask_select_def by (induction xs) auto

lemma zip_map_map_same: "zip (map f xs) (map g xs) = map (\<lambda>x. (f x, g x)) xs"
  by (induction xs) auto

lemma length_cells:
  "length rs = cell t True True rs + cell t True False rs + cell t False True rs + cell t False False rs"
  by (induction rs) (auto simp: cell_def)

lemma sum_list_high_risk_of:
  "sum_list (map (high_risk_of t) rs) = int (cell t True True rs + cell t True False rs)"
  by (induction rs) (auto simp: high_risk_of_def cell_def)

lemma mean_high_risk_of:
  "mean (map (high_risk_of t) rs) =
     (if rs = [] then NaN else rate (cell t True True rs + cell t True False rs) (length rs))"
  by (simp add: mean_def rate_def sum_list_high_risk_of)

lemma sum_list_no_recid:
  "sum_list (map (high_risk_of t) (filter (\<lambda>r. \<not> two_year_recid r) rs)) = int (cell t True False rs)"
  by (induction rs) (auto simp: high_risk_of_def cell_def)

lemma sum_list_recid:
  "sum_list (map (high_risk_of t) (filter two_year_recid rs)) = int (cell t True True rs)"
  by (induction rs) (auto simp: high_risk_of_def cell_def)

lemma length_no_recid:
  "length (filter (\<lambda>r. \<not> two_year_recid r) rs) = cell t True False rs + cell t False False rs"
  by (induction rs) (auto simp: cell_def)

lemma length_recid:
  "length (filter two_year_recid rs) = cell t True True rs + cell t False True rs"
  by (induction rs) (auto simp: cell_def)

lemma no_recid_empty:
  "(filter (\<lambda>r. \<not> two_year_recid r) rs = []) = (cell t True False rs + cell t False False rs = 0)"
  using length_no_recid [of rs t] by (metis length_0_conv)

lemma recid_empty:
  "(filter two_year_recid rs = []) = (cell t True True rs + cell t False True rs = 0)"
  using length_recid [of rs t] by (metis length_0_conv)

lemma zero_fill_no_recid:
  "(if filter (\<lambda>r. \<not> two_year_recid r) rs = [] then Fl 0
    else mean (map (high_risk_of t) (filter (\<lambda>r. \<not> two_year_recid r) rs))) =
   (if cell t True False rs + cell t False False rs = 0 then Fl 0
    else rate (cell t True False rs) (cell t True False rs + cell t False False rs))"
proof (cases "filter (\<lambda>r. \<not> two_year_recid r) rs = []")
  case True
  then show ?thesis using no_recid_empty [of rs t] by simp
next
  case False
  then have "cell t True False rs + cell t False False rs \<noteq> 0"
    using no_recid_empty [of rs t] by simp
  with False show ?thesis
    by (simp add: mean_def rate_def sum_list_no_recid length_no_recid [of rs t])
qed

lemma zero_fill_recid:
  "(if filter two_year_recid rs = [] then Fl 0
    else mean (map (high_risk_of t) (filter two_year_recid rs))) =
   (if cell t True True rs + cell t False True rs = 0 then Fl 0
    else rate (cell t True True rs) (cell t True True rs + cell t False True rs))"
proof (cases "filter two_year_recid rs = []")
  case True
  then show ?thesis using recid_empty [of rs t] by simp
next
  case False
  then have "cell t True True rs + cell t False True rs \<noteq> 0"
    using recid_empty [of rs t] by simp
  with False show ?thesis
    by (simp add: mean_def rate_def sum_list_recid length_recid [of rs t])
qed

lemma race_binary_1: "(race_binary r = 1) = (race r = ''African-American'')"
  by (simp add: race_binary_def)

lemma race_binary_0: "(race_binary r = 0) = (race r \<noteq> ''African-American'')"
  by (simp add: race_binary_def)

subsection \<open>The fields of the simplified script's metrics\<close>

lemma s_sr_aa: "selection_rate_aa (fst (analyze_bias_at t d)) = mean (map (high_risk_of t) (african_american (rows d)))"
  by (simp add: analyze_bias_at_def Let_def filter_zip_map map_snd_zip_map african_american_def)

lemma s_sr_other: "selection_rate_other (fst (analyze_bias_at t d)) = mean (map (high_risk_of t) (others (rows d)))"
  by (simp add: analyze_bias_at_def Let_def filter_zip_map map_snd_zip_map others_def)

lemma s_di: "disparate_impact (fst (analyze_bias_at t d)) =
    np_truediv (mean (map (high_risk_of t) (african_american (rows d)))) (mean (map (high_risk_of t) (others (rows d))))"
  by (simp add: analyze_bias_at_def Let_def filter_zip_map map_snd_zip_map african_american_def others_def)

lemma s_fpr_aa_raw: "fpr_aa (fst (analyze_bias_at t d)) =
   (if filter (\<lambda>r. \<not> two_year_recid r) (african_american (rows d)) = [] then Fl 0
    else mean (map (high_risk_of t) (filter (\<lambda>r. \<not> two_year_recid r) (african_american (rows d)))))"
  by (simp add: analyze_bias_at_def Let_def filter_zip_map map_snd_zip_map african_american_def
      del: filter_filter)

lemma s_fpr_other_raw: "fpr_other (fst (analyze_bias_at t d)) =
   (if filter (\<lambda>r. \<not> two_year_recid r) (others (rows d)) = [] then Fl 0
    else mean (map (high_risk_of t) (filter (\<lambda>r. \<not> two_year_recid r) (others (rows d)))))"
  by (simp add: analyze_bias_at_def Let_def filter_zip_map map_snd_zip_map others_def
      del: filter_filter)

lemma s_tpr_aa_raw: "tpr_aa (fst (analyze_bias_at t d)) =
   (if filter two_year_recid (african_american (rows d)) = [] then Fl 0
    else mean (map (high_risk_of t) (filter two_year_recid (african_american (rows d)))))"
  by (simp add: analyze_bias_at_def Let_def filter_zip_map map_snd_zip_map african_american_def
      del: filter_filter)

lemma s_tpr_other_raw: "tpr_other (fst (analyze_bias_at t d)) =
   (if filter two_year_recid (others (rows d)) = [] then Fl 0
    else mean (map (high_risk_of t) (filter two_year_recid (others (rows d)))))"
  by (simp add: analyze_bias_at_def Let_def filter_zip_map map_snd_zip_map others_def
      del: filter_filter)

lemma s_fpr_aa: "fpr_aa (fst (analyze_bias_at t d)) =
   (if cell t True False (african_american (rows d)) + cell t False False (african_american (rows d)) = 0 then Fl 0
    else rate (cell t True False (african_american (rows d)))
           (cell t True False (african_american (rows d)) + cell t False False (african_american (rows d))))"
  unfolding s_fpr_aa_raw zero_fill_no_recid ..

lemma s_fpr_other: "fpr_other (fst (analyze_bias_at t d)) =
   (if cell t True False (others (rows d)) + cell t False False (others (rows d)) = 0 then Fl 0
    else rate (cell t True False (others (rows d)))
           (cell t True False (others (rows d)) + cell t False False (others (rows d))))"
  unfolding s_fpr_other_raw zero_fill_no_recid ..

lemma s_tpr_aa: "tpr_aa (fst (analyze_bias_at t d)) =
   (if cell t True True (african_american (rows d)) + cell t False True (african_american (rows d)) = 0 then Fl 0
    else rate (cell t True True (african_american (rows d)))
           (cell t True True (african_american (rows d)) + cell t False True (african_american (rows d))))"
  unfolding s_tpr_aa_raw zero_fill_recid ..

lemma s_tpr_other: "tpr_other (fst (analyze_bias_at t d)) =
   (if cell t True True (others (rows d)) + cell t False True (others (rows d)) = 0 then Fl 0
    else rate (cell t True True (others (rows d)))
           (cell t True True (others (rows d)) + cell t False True (others (rows d))))"
  unfolding s_tpr_other_raw zero_fill_recid ..

lemma s_frame: "snd (analyze_bias_at t d) = d\<lparr>high_risk := Some (map (high_risk_of t) (rows d))\<rparr>"
  by (simp add: analyze_bias_at_def Let_def)

subsection \<open>The fields of the full script's metrics\<close>

lemma f_sr_aa: "selection_rate_african_american (fst (calculate_fairness_metrics_at t a)) = mean (map (high_risk_of t) (african_american (data a)))"
  by (simp add: calculate_fairness_metrics_at_def Let_def mask_select_map filter_map comp_def race_binary_1 african_american_def)

lemma f_sr_others: "selection_rate_others (fst (calculate_fairness_metrics_at t a)) = mean (map (high_risk_of t) (others (data a)))"
  by (simp add: calculate_fairness_metrics_at_def Let_def mask_select_map filter_map comp_def race_binary_0 others_def)

lemma np_sum_map: "np_sum (map P xs) = int (length (filter P xs))"
  by (simp add: np_sum_def filter_map comp_def)

lemma count_pairs_rows:
  "count_pairs (if out then 1 else 0) (if dec then 1 else 0)
     (map (\<lambda>r. if two_year_recid r then 1 else 0) rs) (map (high_risk_of t) rs) = cell t dec out rs"
  unfolding count_pairs_def zip_map_map_same cell_def
  by (induction rs) (auto simp: high_risk_of_def)

lemma count_pairs_cells:
  "count_pairs 1 1 (map (\<lambda>r. if two_year_recid r then 1 else 0) rs) (map (high_risk_of t) rs) = cell t True True rs"
  "count_pairs 0 1 (map (\<lambda>r. if two_year_recid r then 1 else 0) rs) (map (high_risk_of t) rs) = cell t True False rs"
  "count_pairs 1 0 (map (\<lambda>r. if two_year_recid r then 1 else 0) rs) (map (high_risk_of t) rs) = cell t False True rs"
  using count_pairs_rows [of True True rs t] count_pairs_rows [of False True rs t]
    count_pairs_rows [of True False rs t] by simp_all

lemma recall_rows:
  "recall_score (map (\<lambda>r. if two_year_recid r then 1 else 0) rs) (map (high_risk_of t) rs) =
   (if cell t True True rs + cell t False True rs = 0 then Fl 0
    else rate (cell t True True rs) (cell t True True rs + cell t False True rs))"
  by (simp add: recall_score_def count_pairs_cells rate_def Let_def)

lemma precision_rows:
  "precision_score (map (\<lambda>r. if two_year_recid r then 1 else 0) rs) (map (high_risk_of t) rs) =
   (if cell t True True rs + cell t True False rs = 0 then Fl 0
    else rate (cell t True True rs) (cell t True True rs + cell t True False rs))"
  by (simp add: precision_score_def count_pairs_cells rate_def Let_def)

lemma f1_rows:
  "f1_score (map (\<lambda>r. if two_year_recid r then 1 else 0) rs) (map (high_risk_of t) rs) =
   (if 2 * cell t True True rs + cell t True False rs + cell t False True rs = 0 then Fl 0
    else rate (2 * cell t True True rs) (2 * cell t True True rs + cell t True False rs + cell t False True rs))"
  by (simp add: f1_score_def count_pairs_cells rate_def Let_def)

lemma accuracy_rows:
  "accuracy_score (map (\<lambda>r. if two_year_recid r then 1 else 0) rs) (map (high_risk_of t) rs) =
   (if rs = [] then NaN else rate (cell t True True rs + cell t False False rs) (length rs))"
proof -
  have "sum_list (map (\<lambda>r. if (if two_year_recid r then 1 else 0) = high_risk_of t r then 1 else (0::int)) rs)
      = int (cell t True True rs + cell t False False rs)"
    by (induction rs) (auto simp: cell_def high_risk_of_def)
  then show ?thesis
    by (simp add: accuracy_score_def zip_map_map_same mean_def rate_def comp_def)
qed

lemma fpr_rows:
  "fpr_of (map P rs) (map (\<lambda>r. if two_year_recid r then 1 else 0) rs) (map (high_risk_of t) rs) =
   (let X = filter P rs in
    int_truediv (int (cell t True False X)) (int (cell t True False X + cell t False False X)))"
proof -
  have a: "length (filter (\<lambda>r. (if two_year_recid r then 1 else (0::int)) = 0 \<and> high_risk_of t r = 1) X) = cell t True False X" for X
    by (induction X) (auto simp: cell_def high_risk_of_def)
  have b: "length (filter (\<lambda>r. (if two_year_recid r then 1 else (0::int)) = 0) X) = cell t True False X + cell t False False X" for X
    by (induction X) (auto simp: cell_def)
  show ?thesis
    by (simp add: fpr_of_def mask_select_map zip_map_map_same np_sum_map filter_map comp_def a b Let_def
        del: filter_filter)
qed

lemma f_fpr_aa: "fpr_african_american (fst (calculate_fairness_metrics_at t a)) =
   (let X = african_american (data a) in
    int_truediv (int (cell t True False X)) (int (cell t True False X + cell t False False X)))"
  by (simp add: calculate_fairness_metrics_at_def Let_def fpr_rows [unfolded Let_def] race_binary_1 african_american_def comp_def)

lemma f_tpr_aa: "tpr_african_american (fst (calculate_fairness_metrics_at t a)) =
   (let X = african_american (data a) in
    if cell t True True X + cell t False True X = 0 then Fl 0
    else rate (cell t True True X) (cell t True True X + cell t False True X))"
  apply (simp add: calculate_fairness_metrics_at_def Let_def  mask_select_map)
  apply (simp add: filter_map comp_def race_binary_1 recall_rows african_american_def)
  done

lemma f_fpr_others: "fpr_others (fst (calculate_fairness_metrics_at t a)) =
   (let X = others (data a) in
    int_truediv (int (cell t True False X)) (int (cell t True False X + cell t False False X)))"
  by (simp add: calculate_fairness_metrics_at_def Let_def fpr_rows [unfolded Let_def] race_binary_0 others_def comp_def)

lemma f_tpr_others: "tpr_others (fst (calculate_fairness_metrics_at t a)) =
   (let X = others (data a) in
    if cell t True True X + cell t False True X = 0 then Fl 0
    else rate (cell t True True X) (cell t True True X + cell t False True X))"
  apply (simp add: calculate_fairness_metrics_at_def Let_def  mask_select_map)
  apply (simp add: filter_map comp_def race_binary_0 recall_rows others_def)
  done

lemma f_di: "disparate_impact (fst (calculate_fairness_metrics_at t a)) =
   (if np_gt (mean (map (high_risk_of t) (others (data a)))) (Fl 0)
    then np_truediv (mean (map (high_risk_of t) (african_american (data a))))
           (mean (map (high_risk_of t) (others (data a))))
    else PosInf)"
  by (simp add: calculate_fairness_metrics_at_def Let_def mask_select_map filter_map comp_def
      race_binary_0 race_binary_1 african_american_def others_def)

lemma f_tnr: "tnr_african_american (fst (calculate_fairness_metrics_at t a)) =
     np_sub (Fl 1) (fpr_african_american (fst (calculate_fairness_metrics_at t a)))"
  "tnr_others (fst (calculate_fairness_metrics_at t a)) =
     np_sub (Fl 1) (fpr_others (fst (calculate_fairness_metrics_at t a)))"
  by (simp_all add: calculate_fairness_metrics_at_def Let_def)

lemma f_differences:
  "tpr_difference (fst (calculate_fairness_metrics_at t a)) =
     np_abs (np_sub (tpr_african_american (fst (calculate_fairness_metrics_at t a)))
                    (tpr_others (fst (calculate_fairness_metrics_at t a))))"
  "fpr_difference (fst (calculate_fairness_metrics_at t a)) =
     np_abs (np_sub (fpr_african_american (fst (calculate_fairness_metrics_at t a)))
                    (fpr_others (fst (calculate_fairness_metrics_at t a))))"
  by (simp_all add: calculate_fairness_metrics_at_def Let_def)

lemma f_scores:
  "accuracy (fst (calculate_fairness_metrics_at t a)) =
     (if data a = [] then NaN
      else rate (cell t True True (data a) + cell t False False (data a)) (length (data a)))"
  "precision (fst (calculate_fairness_metrics_at t a)) =
     (if cell t True True (data a) + cell t True False (data a) = 0 then Fl 0
      else rate (cell t True True (data a)) (cell t True True (data a) + cell t True False (data a)))"
  "recall (fst (calculate_fairness_metrics_at t a)) =
     (if cell t True True (data a) + cell t False True (data a) = 0 then Fl 0
      else rate (cell t True True (data a)) (cell t True True (data a) + cell t False True (data a)))"
  "f1 (fst (calculate_fairness_metrics_at t a)) =
     (if 2 * cell t True True (data a) + cell t True False (data a) + cell t False True (data a) = 0 then Fl 0
      else rate (2 * cell t True True (data a))
             (2 * cell t True True (data a) + cell t True False (data a) + cell t False True (data a)))"
  by (simp_all add: calculate_fairness_metrics_at_def Let_def accuracy_rows precision_rows recall_rows f1_rows)

lemma f_frame: "snd (calculate_fairness_metrics_at t a) = a"
  by (simp add: calculate_fairness_metrics_at_def Let_def)

lemma mean_high_risk_of_cases:
  "mean (map (high_risk_of t) rs) = NaN \<and> rs = [] \<or>
   (\<exists>q. mean (map (high_risk_of t) rs) = Fl q \<and> 0 \<le> q \<and> q \<le> 1 \<and> rs \<noteq> [])"
proof (cases "rs = []")
  case True
  then show ?thesis by (simp add: mean_def)
next
  case False
  have "cell t True True rs + cell t True False rs \<le> length rs"
    using length_cells [of rs t] by simp
  with False show ?thesis
    by (simp add: mean_high_risk_of rate_def divide_le_eq_1)
qed

section \<open>The decision threshold\<close>

text \<open>
  Claim C5. The decision of a record is 1 exactly when its \<^verbatim>\<open>decile_score\<close> is at least
  the threshold, the comparison being inclusive, and the threshold is 5: this is the column
  \<^verbatim>\<open>high_risk\<close> that \<^verbatim>\<open>analyze_bias\<close> stores, and the decisions both scripts average
  into their selection rates.
\<close>

theorem decision_threshold_inclusive:
  "high_risk_threshold = 5
   \<and> (high_risk_of high_risk_threshold r = 1) = (5 \<le> decile_score r)
   \<and> (high_risk_of high_risk_threshold r = 0) = (decile_score r < 5)
   \<and> high_risk (snd (analyze_bias d)) = Some (map (high_risk_of 5) (rows d))
   \<and> selection_rate_aa (fst (analyze_bias d)) = mean (map (high_risk_of 5) (african_american (rows d)))
   \<and> selection_rate_other (fst (analyze_bias d)) = mean (map (high_risk_of 5) (others (rows d)))
   \<and> selection_rate_african_american (fst (calculate_fairness_metrics a)) =
       mean (map (high_risk_of 5) (african_american (data a)))
   \<and> selection_rate_others (fst (calculate_fairness_metrics a)) =
       mean (map (high_risk_of 5) (others (data a)))"
  by (simp add: analyze_bias_def calculate_fairness_metrics_def high_risk_threshold_def
      high_risk_of_def s_sr_aa s_sr_other s_frame f_sr_aa f_sr_others)

section \<open>The assessments\<close>

text \<open>
  Claim C6. In both scripts the demographic-parity assessment is the violated one exactly
  when \<^verbatim>\<open>disparate_impact < 0.8\<close> or \<^verbatim>\<open>disparate_impact > 1.2\<close>, and the acceptable one
  otherwise; it depends on the metrics only through \<^verbatim>\<open>disparate_impact\<close>.
\<close>

theorem demographic_parity_rule:
  "(report_demographic_parity m = ''VIOLATED'') =
     (np_lt (disparate_impact m) (Fl (8 / 10)) \<or> np_gt (disparate_impact m) (Fl (12 / 10)))
   \<and> (report_demographic_parity m = ''ACCEPTABLE'') =
     (\<not> (np_lt (disparate_impact m) (Fl (8 / 10)) \<or> np_gt (disparate_impact m) (Fl (12 / 10))))
   \<and> (bias_assessment_demographic_parity s = ''  WARNING: DEMOGRAPHIC PARITY VIOLATED (80%-125% rule)'') =
     (np_lt (disparate_impact s) (Fl (8 / 10)) \<or> np_gt (disparate_impact s) (Fl (12 / 10)))
   \<and> (bias_assessment_demographic_parity s = ''  OK: Demographic parity acceptable'') =
     (\<not> (np_lt (disparate_impact s) (Fl (8 / 10)) \<or> np_gt (disparate_impact s) (Fl (12 / 10))))
   \<and> (disparate_impact m = disparate_impact m' \<longrightarrow>
        report_demographic_parity m = report_demographic_parity m')
   \<and> (disparate_impact s = disparate_impact s' \<longrightarrow>
        bias_assessment_demographic_parity s = bias_assessment_demographic_parity s')"
  by (simp add: report_demographic_parity_def bias_assessment_demographic_parity_def)

theorem demographic_parity_rule_witness:
  "disparate_impact (fst (calculate_fairness_metrics
       \<lparr>data = [\<lparr>race = ''African-American'', decile_score = 7, two_year_recid = True\<rparr>,
                \<lparr>race = ''Caucasian'', decile_score = 2, two_year_recid = False\<rparr>]\<rparr>)) =
   disparate_impact (fst (calculate_fairness_metrics
       \<lparr>data = [\<lparr>race = ''African-American'', decile_score = 9, two_year_recid = False\<rparr>,
                \<lparr>race = ''Hispanic'', decile_score = 1, two_year_recid = False\<rparr>]\<rparr>))
   \<and> report_demographic_parity (fst (calculate_fairness_metrics
       \<lparr>data = [\<lparr>race = ''African-American'', decile_score = 7, two_year_recid = True\<rparr>,
                \<lparr>race = ''Caucasian'', decile_score = 2, two_year_recid = False\<rparr>]\<rparr>)) =
     report_demographic_parity (fst (calculate_fairness_metrics
       \<lparr>data = [\<lparr>race = ''African-American'', decile_score = 9, two_year_recid = False\<rparr>,
                \<lparr>race = ''Hispanic'', decile_score = 1, two_year_recid = False\<rparr>]\<rparr>))
   \<and> disparate_impact (fst (analyze_bias
       \<lparr>rows = [\<lparr>race = ''African-American'', decile_score = 7, two_year_recid = True\<rparr>,
                \<lparr>race = ''Caucasian'', decile_score = 6, two_year_recid = False\<rparr>], high_risk = None\<rparr>)) =
     disparate_impact (fst (analyze_bias
       \<lparr>rows = [\<lparr>race = ''African-American'', decile_score = 5, two_year_recid = False\<rparr>,
                \<lparr>race = ''Hispanic'', decile_score = 8, two_year_recid = False\<rparr>], high_risk = None\<rparr>))
   \<and> bias_assessment_demographic_parity (fst (analyze_bias
       \<lparr>rows = [\<lparr>race = ''African-American'', decile_score = 7, two_year_recid = True\<rparr>,
                \<lparr>race = ''Caucasian'', decile_score = 6, two_year_recid = False\<rparr>], high_risk = None\<rparr>)) =
     bias_assessment_demographic_parity (fst (analyze_bias
       \<lparr>rows = [\<lparr>race = ''African-American'', decile_score = 5, two_year_recid = False\<rparr>,
                \<lparr>race = ''Hispanic'', decile_score = 8, two_year_recid = False\<rparr>], high_risk = None\<rparr>))"
proof -
  let ?a1 = "\<lparr>data = [\<lparr>race = ''African-American'', decile_score = 7, two_year_recid = True\<rparr>,
                \<lparr>race = ''Caucasian'', decile_score = 2, two_year_recid = False\<rparr>]\<rparr>"
  let ?a2 = "\<lparr>data = [\<lparr>race = ''African-American'', decile_score = 9, two_year_recid = False\<rparr>,
                \<lparr>race = ''Hispanic'', decile_score = 1, two_year_recid = False\<rparr>]\<rparr>"
  let ?d1 = "\<lparr>rows = [\<lparr>race = ''African-American'', decile_score = 7, two_year_recid = True\<rparr>,
                \<lparr>race = ''Caucasian'', decile_score = 6, two_year_recid = False\<rparr>], high_risk = None\<rparr>"
  let ?d2 = "\<lparr>rows = [\<lparr>race = ''African-American'', decile_score = 5, two_year_recid = False\<rparr>,
                \<lparr>race = ''Hispanic'', decile_score = 8, two_year_recid = False\<rparr>], high_risk = None\<rparr>"
  have h1: "disparate_impact (fst (calculate_fairness_metrics ?a1)) =
            disparate_impact (fst (calculate_fairness_metrics ?a2))"
    by code_simp
  have h2: "disparate_impact (fst (analyze_bias ?d1)) = disparate_impact (fst (analyze_bias ?d2))"
    by code_simp
  from demographic_parity_rule [of "fst (calculate_fairness_metrics ?a1)" "fst (analyze_bias ?d1)"
      "fst (calculate_fairness_metrics ?a2)" "fst (analyze_bias ?d2)"] h1 h2
  show ?thesis by blast
qed


section \<open>A reference cohort with selection rate zero\<close>

text \<open>
  Claim C1. When the selection rate of the Others cohort is zero, \<^verbatim>\<open>disparate_impact\<close> is
  not a finite number in either script, and no error is raised: the full script stores
  \<^verbatim>\<open>float('inf')\<close>; the simplified script divides by zero and stores the positive infinity
  when the African-American selection rate is positive and NaN otherwise.
\<close>

theorem zero_reference_rate_not_finite:
  "(selection_rate_other (fst (analyze_bias d)) = Fl 0 \<longrightarrow>
      \<not> is_finite (disparate_impact (fst (analyze_bias d))) \<and>
      disparate_impact (fst (analyze_bias d)) =
        (if np_gt (selection_rate_aa (fst (analyze_bias d))) (Fl 0) then PosInf else NaN))
   \<and> (selection_rate_others (fst (calculate_fairness_metrics a)) = Fl 0 \<longrightarrow>
      \<not> is_finite (disparate_impact (fst (calculate_fairness_metrics a))) \<and>
      disparate_impact (fst (calculate_fairness_metrics a)) = PosInf)"
proof (intro conjI impI)
  assume "selection_rate_other (fst (analyze_bias d)) = Fl 0"
  then have z: "mean (map (high_risk_of 5) (others (rows d))) = Fl 0"
    by (simp add: analyze_bias_def high_risk_threshold_def s_sr_other)
  have di: "disparate_impact (fst (analyze_bias d)) =
      np_truediv (mean (map (high_risk_of 5) (african_american (rows d)))) (Fl 0)"
    by (simp add: analyze_bias_def high_risk_threshold_def s_di z)
  have sr: "selection_rate_aa (fst (analyze_bias d)) = mean (map (high_risk_of 5) (african_american (rows d)))"
    by (simp add: analyze_bias_def high_risk_threshold_def s_sr_aa)
  from mean_high_risk_of_cases [of 5 "african_american (rows d)"]
  show "\<not> is_finite (disparate_impact (fst (analyze_bias d)))"
    unfolding di by (auto split: if_splits)
  from mean_high_risk_of_cases [of 5 "african_american (rows d)"]
  show "disparate_impact (fst (analyze_bias d)) =
        (if np_gt (selection_rate_aa (fst (analyze_bias d))) (Fl 0) then PosInf else NaN)"
    unfolding di sr by (auto simp: np_gt_def split: if_splits)
next
  assume "selection_rate_others (fst (calculate_fairness_metrics a)) = Fl 0"
  then have z: "mean (map (high_risk_of 5) (others (data a))) = Fl 0"
    by (simp add: calculate_fairness_metrics_def f_sr_others)
  show di: "disparate_impact (fst (calculate_fairness_metrics a)) = PosInf"
    by (simp add: calculate_fairness_metrics_def f_di z np_gt_def)
  then show "\<not> is_finite (disparate_impact (fst (calculate_fairness_metrics a)))"
    by simp
qed

theorem zero_reference_rate_not_finite_witness:
  "selection_rate_other (fst (analyze_bias
      \<lparr>rows = [\<lparr>race = ''African-American'', decile_score = 7, two_year_recid = True\<rparr>,
               \<lparr>race = ''Caucasian'', decile_score = 2, two_year_recid = False\<rparr>], high_risk = None\<rparr>)) = Fl 0
   \<and> disparate_impact (fst (analyze_bias
      \<lparr>rows = [\<lparr>race = ''African-American'', decile_score = 7, two_year_recid = True\<rparr>,
               \<lparr>race = ''Caucasian'', decile_score = 2, two_year_recid = False\<rparr>], high_risk = None\<rparr>)) = PosInf
   \<and> selection_rate_others (fst (calculate_fairness_metrics
      \<lparr>data = [\<lparr>race = ''African-American'', decile_score = 7, two_year_recid = True\<rparr>,
               \<lparr>race = ''Caucasian'', decile_score = 2, two_year_recid = False\<rparr>]\<rparr>)) = Fl 0
   \<and> disparate_impact (fst (calculate_fairness_metrics
      \<lparr>data = [\<lparr>race = ''African-American'', decile_score = 7, two_year_recid = True\<rparr>,
               \<lparr>race = ''Caucasian'', decile_score = 2, two_year_recid = False\<rparr>]\<rparr>)) = PosInf"
proof -
  let ?rs = "[\<lparr>race = ''African-American'', decile_score = 7, two_year_recid = True\<rparr>,
               \<lparr>race = ''Caucasian'', decile_score = 2, two_year_recid = False\<rparr>]"
  have h1: "selection_rate_other (fst (analyze_bias \<lparr>rows = ?rs, high_risk = None\<rparr>)) = Fl 0"
    by code_simp
  have h2: "selection_rate_others (fst (calculate_fairness_metrics \<lparr>data = ?rs\<rparr>)) = Fl 0"
    by code_simp
  have h3: "np_gt (selection_rate_aa (fst (analyze_bias \<lparr>rows = ?rs, high_risk = None\<rparr>))) (Fl 0)"
    by code_simp
  from zero_reference_rate_not_finite [of "\<lparr>rows = ?rs, high_risk = None\<rparr>" "\<lparr>data = ?rs\<rparr>"] h1 h2 h3
  show ?thesis by presburger
qed

text \<open>
  Claim C10. In the full script, when the selection rate of the Others cohort is zero,
  \<^verbatim>\<open>disparate_impact\<close> is \<^verbatim>\<open>float('inf')\<close> and the demographic-parity assessment of
  the report is VIOLATED, since the infinity is greater than 1.2.
\<close>

theorem infinite_impact_is_violated:
  assumes "selection_rate_others (fst (calculate_fairness_metrics a)) = Fl 0"
  shows "disparate_impact (fst (calculate_fairness_metrics a)) = PosInf \<and>
         report_demographic_parity (fst (calculate_fairness_metrics a)) = ''VIOLATED''"
proof -
  from assms have z: "mean (map (high_risk_of 5) (others (data a))) = Fl 0"
    by (simp add: calculate_fairness_metrics_def f_sr_others)
  have di: "disparate_impact (fst (calculate_fairness_metrics a)) = PosInf"
    by (simp add: calculate_fairness_metrics_def f_di z np_gt_def)
  show ?thesis
    by (simp add: di report_demographic_parity_def np_gt_def)
qed

theorem infinite_impact_is_violated_witness:
  "selection_rate_others (fst (calculate_fairness_metrics
      \<lparr>data = [\<lparr>race = ''African-American'', decile_score = 7, two_year_recid = True\<rparr>,
               \<lparr>race = ''Caucasian'', decile_score = 2, two_year_recid = False\<rparr>]\<rparr>)) = Fl 0
   \<and> disparate_impact (fst (calculate_fairness_metrics
      \<lparr>data = [\<lparr>race = ''African-American'', decile_score = 7, two_year_recid = True\<rparr>,
               \<lparr>race = ''Caucasian'', decile_score = 2, two_year_recid = False\<rparr>]\<rparr>)) = PosInf
   \<and> report_demographic_parity (fst (calculate_fairness_metrics
      \<lparr>data = [\<lparr>race = ''African-American'', decile_score = 7, two_year_recid = True\<rparr>,
               \<lparr>race = ''Caucasian'', decile_score = 2, two_year_recid = False\<rparr>]\<rparr>)) = ''VIOLATED''"
proof -
  have h: "selection_rate_others (fst (calculate_fairness_metrics
      \<lparr>data = [\<lparr>race = ''African-American'', decile_score = 7, two_year_recid = True\<rparr>,
               \<lparr>race = ''Caucasian'', decile_score = 2, two_year_recid = False\<rparr>]\<rparr>)) = Fl 0"
    by code_simp
  from infinite_impact_is_violated [OF h] h show ?thesis by blast
qed

section \<open>A cohort without negative outcomes\<close>

text \<open>
  The simplified script fills the rate of an empty outcome subset with 0. The full script
  does so for the true positive rate only (through \<^verbatim>\<open>recall_score\<close>); its false
  positive rate of a cohort without a row of outcome 0 is zero over zero.
\<close>

lemma analyze_bias_zero_fills:
  "filter (\<lambda>r. \<not> two_year_recid r) (african_american (rows d)) = [] \<Longrightarrow>
     fpr_aa (fst (analyze_bias d)) = Fl 0"
  "filter (\<lambda>r. \<not> two_year_recid r) (others (rows d)) = [] \<Longrightarrow>
     fpr_other (fst (analyze_bias d)) = Fl 0"
  "filter two_year_recid (african_american (rows d)) = [] \<Longrightarrow>
     tpr_aa (fst (analyze_bias d)) = Fl 0"
  "filter two_year_recid (others (rows d)) = [] \<Longrightarrow>
     tpr_other (fst (analyze_bias d)) = Fl 0"
  by (simp_all add: analyze_bias_def s_fpr_aa_raw s_fpr_other_raw s_tpr_aa_raw s_tpr_other_raw)

lemma calculate_fairness_metrics_no_zero_fill:
  "filter (\<lambda>r. \<not> two_year_recid r) (african_american (data a)) = [] \<Longrightarrow>
     fpr_african_american (fst (calculate_fairness_metrics a)) = NaN"
  "filter (\<lambda>r. \<not> two_year_recid r) (others (data a)) = [] \<Longrightarrow>
     fpr_others (fst (calculate_fairness_metrics a)) = NaN"
  "filter two_year_recid (african_american (data a)) = [] \<Longrightarrow>
     tpr_african_american (fst (calculate_fairness_metrics a)) = Fl 0"
  "filter two_year_recid (others (data a)) = [] \<Longrightarrow>
     tpr_others (fst (calculate_fairness_metrics a)) = Fl 0"
  using no_recid_empty [of "african_american (data a)" 5] no_recid_empty [of "others (data a)" 5]
    recid_empty [of "african_american (data a)" 5] recid_empty [of "others (data a)" 5]
  by (simp_all add: calculate_fairness_metrics_def f_fpr_aa f_fpr_others f_tpr_aa f_tpr_others
      int_truediv_def)

text \<open>
  Claim C2. A cohort whose rows all have \<^verbatim>\<open>two_year_recid = 1\<close>: the simplified script
  reports the false positive rate 0, the full script divides zero by zero and reports NaN.
\<close>

theorem fpr_without_negatives_is_nan:
  "fpr_african_american (fst (calculate_fairness_metrics
      \<lparr>data = [\<lparr>race = ''African-American'', decile_score = 7, two_year_recid = True\<rparr>,
               \<lparr>race = ''Caucasian'', decile_score = 2, two_year_recid = False\<rparr>]\<rparr>)) = NaN
   \<and> fpr_aa (fst (analyze_bias
      \<lparr>rows = [\<lparr>race = ''African-American'', decile_score = 7, two_year_recid = True\<rparr>,
               \<lparr>race = ''Caucasian'', decile_score = 2, two_year_recid = False\<rparr>], high_risk = None\<rparr>)) = Fl 0"
  by code_simp

section \<open>Effects on the input\<close>

text \<open>
  Claim C4, as stated, fails for the simplified script: \<^verbatim>\<open>analyze_bias\<close> returns its
  frame with a new column.
\<close>

theorem analyze_bias_changes_frame:
  "snd (analyze_bias \<lparr>rows = [\<lparr>race = ''Caucasian'', decile_score = 2, two_year_recid = False\<rparr>],
                      high_risk = None\<rparr>) \<noteq>
   \<lparr>rows = [\<lparr>race = ''Caucasian'', decile_score = 2, two_year_recid = False\<rparr>], high_risk = None\<rparr>"
  by (simp add: analyze_bias_def s_frame)

text \<open>
  Claim C4, amended. \<^verbatim>\<open>analyze_bias\<close> changes the frame it is given only in the column
  \<^verbatim>\<open>high_risk\<close>, which it sets to the decisions of the rows; the rows are unchanged, the
  metrics do not depend on what the column held before, and a second call on the
  resulting frame returns the same metrics and the same frame. The full script's
  \<^verbatim>\<open>calculate_fairness_metrics\<close> leaves the auditor as it was.
\<close>

theorem frame_effects:
  "rows (snd (analyze_bias d)) = rows d
   \<and> high_risk (snd (analyze_bias d)) = Some (map (high_risk_of high_risk_threshold) (rows d))
   \<and> fst (analyze_bias (d\<lparr>high_risk := c\<rparr>)) = fst (analyze_bias d)
   \<and> analyze_bias (snd (analyze_bias d)) = analyze_bias d
   \<and> snd (calculate_fairness_metrics a) = a"
proof -
  have m: "fst (analyze_bias_at t (d\<lparr>high_risk := c\<rparr>)) = fst (analyze_bias_at t d)" for t c
    by (simp add: analyze_bias_at_def Let_def)
  have "analyze_bias_at t (snd (analyze_bias_at t d)) = analyze_bias_at t d" for t
    by (rule prod_eqI) (simp_all add: s_frame m)
  then show ?thesis
    by (simp add: analyze_bias_def calculate_fairness_metrics_def s_frame f_frame m)
qed

section \<open>The range of the metrics\<close>

lemma in_unit_rate: "k \<le> n \<Longrightarrow> 0 < n \<Longrightarrow> in_unit (rate k n)"
  by (simp add: rate_def divide_le_eq_1)

lemma in_unit_zero_fill: "in_unit (if k + j = 0 then Fl 0 else rate k (k + j))"
  by (simp add: in_unit_rate)

lemma in_unit_mean: "rs \<noteq> [] \<Longrightarrow> in_unit (mean (map (high_risk_of t) rs))"
  using mean_high_risk_of_cases [of t rs] by auto

lemma nonneg_or_inf_truediv:
  assumes "0 \<le> p" and "0 \<le> q" and "p \<noteq> 0 \<or> q \<noteq> 0"
  shows "nonneg_or_inf (np_truediv (Fl p) (Fl q))"
  using assms by (auto simp: nonneg_or_inf_def)

lemma s_di_range:
  assumes "african_american (rows d) \<noteq> []" and "others (rows d) \<noteq> []"
    and "np_gt (selection_rate_aa (fst (analyze_bias_at t d))) (Fl 0) \<or>
         np_gt (selection_rate_other (fst (analyze_bias_at t d))) (Fl 0)"
  shows "nonneg_or_inf (disparate_impact (fst (analyze_bias_at t d)))"
proof -
  from mean_high_risk_of_cases [of t "african_american (rows d)"] assms(1)
  obtain p where p: "mean (map (high_risk_of t) (african_american (rows d))) = Fl p" "0 \<le> p"
    by auto
  from mean_high_risk_of_cases [of t "others (rows d)"] assms(2)
  obtain q where q: "mean (map (high_risk_of t) (others (rows d))) = Fl q" "0 \<le> q"
    by auto
  from assms(3) have "p \<noteq> 0 \<or> q \<noteq> 0"
    by (auto simp: s_sr_aa s_sr_other p q np_gt_def)
  with p q show ?thesis
    unfolding s_di p(1) q(1) by (intro nonneg_or_inf_truediv)
qed

lemma f_di_range:
  assumes "african_american (data a) \<noteq> []"
  shows "nonneg_or_inf (disparate_impact (fst (calculate_fairness_metrics_at t a)))"
proof -
  from mean_high_risk_of_cases [of t "african_american (data a)"] assms(1)
  obtain p where p: "mean (map (high_risk_of t) (african_american (data a))) = Fl p" "0 \<le> p"
    by auto
  show ?thesis
  proof (cases "np_gt (mean (map (high_risk_of t) (others (data a)))) (Fl 0)")
    case True
    with mean_high_risk_of_cases [of t "others (data a)"]
    obtain q where q: "mean (map (high_risk_of t) (others (data a))) = Fl q" "0 < q"
      by (auto simp: np_gt_def)
    with p True show ?thesis
      unfolding f_di by (simp add: nonneg_or_inf_def)
  next
    case False
    then show ?thesis unfolding f_di by (simp add: nonneg_or_inf_def)
  qed
qed

lemma int_truediv_rate: "0 < n \<Longrightarrow> int_truediv (int k) (int n) = rate k n"
  by (simp add: int_truediv_def rate_def)

lemma f_fpr_range:
  assumes "filter (\<lambda>r. \<not> two_year_recid r) X \<noteq> []"
  shows "in_unit (int_truediv (int (cell t True False X)) (int (cell t True False X + cell t False False X)))"
    and "in_unit (np_sub (Fl 1) (int_truediv (int (cell t True False X)) (int (cell t True False X + cell t False False X))))"
proof -
  from assms have pos: "0 < cell t True False X + cell t False False X"
    using no_recid_empty [of X t] by simp
  have r: "in_unit (rate (cell t True False X) (cell t True False X + cell t False False X))"
    using pos by (intro in_unit_rate) simp_all
  show "in_unit (int_truediv (int (cell t True False X)) (int (cell t True False X + cell t False False X)))"
    using r by (simp only: int_truediv_rate [OF pos])
  show "in_unit (np_sub (Fl 1) (int_truediv (int (cell t True False X)) (int (cell t True False X + cell t False False X))))"
    using r by (simp only: int_truediv_rate [OF pos]) (simp add: rate_def)
qed

lemma f_accuracy_range:
  assumes "data a \<noteq> []"
  shows "in_unit (accuracy (fst (calculate_fairness_metrics_at t a)))"
proof -
  have "cell t True True (data a) + cell t False False (data a) \<le> length (data a)"
    using length_cells [of "data a" t] by simp
  with assms show ?thesis
    by (simp add: f_scores in_unit_rate)
qed

lemma f_scores_range:
  shows "in_unit (precision (fst (calculate_fairness_metrics_at t a)))"
    and "in_unit (recall (fst (calculate_fairness_metrics_at t a)))"
    and "in_unit (f1 (fst (calculate_fairness_metrics_at t a)))"
proof -
  show "in_unit (precision (fst (calculate_fairness_metrics_at t a)))"
    unfolding f_scores by (rule in_unit_zero_fill)
  show "in_unit (recall (fst (calculate_fairness_metrics_at t a)))"
    unfolding f_scores by (rule in_unit_zero_fill)
  show "in_unit (f1 (fst (calculate_fairness_metrics_at t a)))"
    unfolding f_scores by (simp add: in_unit_rate)
qed

text \<open>
  Claim C3, as stated, fails on a non-empty table with an empty cohort: the selection rate
  of the empty cohort is the mean of an empty column, NaN, in both scripts, and the
  simplified script's \<^verbatim>\<open>disparate_impact\<close> is NaN with it.
\<close>

theorem empty_cohort_rate_is_nan:
  "rows \<lparr>rows = [\<lparr>race = ''African-American'', decile_score = 7, two_year_recid = False\<rparr>],
         high_risk = None\<rparr> \<noteq> []
   \<and> \<not> in_unit (selection_rate_other (fst (analyze_bias
       \<lparr>rows = [\<lparr>race = ''African-American'', decile_score = 7, two_year_recid = False\<rparr>],
         high_risk = None\<rparr>)))
   \<and> disparate_impact (fst (analyze_bias
       \<lparr>rows = [\<lparr>race = ''African-American'', decile_score = 7, two_year_recid = False\<rparr>],
         high_risk = None\<rparr>)) = NaN
   \<and> \<not> in_unit (selection_rate_others (fst (calculate_fairness_metrics
       \<lparr>data = [\<lparr>race = ''African-American'', decile_score = 7, two_year_recid = False\<rparr>]\<rparr>)))"
  by code_simp

text \<open>
  Claim C3, amended. The false positive and true positive rates of the simplified script,
  and the true positive rates, precision, recall and f1 of the full script, lie in
  \<open>[0, 1]\<close> for every table; the accuracy does for every non-empty table; the selection
  rate of a cohort does, in both scripts, when that cohort is non-empty. The false
  positive and true negative rate of the full script lie in \<open>[0, 1]\<close> for a cohort with a
  row of outcome 0. \<^verbatim>\<open>disparate_impact\<close> of the full script is a number in
  \<open>[0, \<infinity>)\<close> or the positive infinity when the African-American cohort is non-empty;
  that of the simplified script is when both cohorts are non-empty and one of the two
  selection rates is positive.
\<close>

theorem rates_in_unit_interval:
  "in_unit (fpr_aa (fst (analyze_bias d)))
   \<and> in_unit (fpr_other (fst (analyze_bias d)))
   \<and> in_unit (tpr_aa (fst (analyze_bias d)))
   \<and> in_unit (tpr_other (fst (analyze_bias d)))
   \<and> (african_american (rows d) \<noteq> [] \<longrightarrow>
        in_unit (selection_rate_aa (fst (analyze_bias d))))
   \<and> (others (rows d) \<noteq> [] \<longrightarrow>
        in_unit (selection_rate_other (fst (analyze_bias d))))
   \<and> (african_american (rows d) \<noteq> [] \<and> others (rows d) \<noteq> [] \<and>
        (np_gt (selection_rate_aa (fst (analyze_bias d))) (Fl 0) \<or>
         np_gt (selection_rate_other (fst (analyze_bias d))) (Fl 0)) \<longrightarrow>
        nonneg_or_inf (disparate_impact (fst (analyze_bias d))))
   \<and> in_unit (tpr_african_american (fst (calculate_fairness_metrics a)))
   \<and> in_unit (tpr_others (fst (calculate_fairness_metrics a)))
   \<and> in_unit (precision (fst (calculate_fairness_metrics a)))
   \<and> in_unit (recall (fst (calculate_fairness_metrics a)))
   \<and> in_unit (f1 (fst (calculate_fairness_metrics a)))
   \<and> (data a \<noteq> [] \<longrightarrow> in_unit (accuracy (fst (calculate_fairness_metrics a))))
   \<and> (african_american (data a) \<noteq> [] \<longrightarrow>
        in_unit (selection_rate_african_american (fst (calculate_fairness_metrics a))))
   \<and> (others (data a) \<noteq> [] \<longrightarrow>
        in_unit (selection_rate_others (fst (calculate_fairness_metrics a))))
   \<and> (african_american (data a) \<noteq> [] \<longrightarrow>
        nonneg_or_inf (disparate_impact (fst (calculate_fairness_metrics a))))
   \<and> (filter (\<lambda>r. \<not> two_year_recid r) (african_american (data a)) \<noteq> [] \<longrightarrow>
        in_unit (fpr_african_american (fst (calculate_fairness_metrics a))) \<and>
        in_unit (tnr_african_american (fst (calculate_fairness_metrics a))))
   \<and> (filter (\<lambda>r. \<not> two_year_recid r) (others (data a)) \<noteq> [] \<longrightarrow>
        in_unit (fpr_others (fst (calculate_fairness_metrics a))) \<and>
        in_unit (tnr_others (fst (calculate_fairness_metrics a))))"
proof -
  have s1: "in_unit (fpr_aa (fst (analyze_bias d)))"
    and s2: "in_unit (fpr_other (fst (analyze_bias d)))"
    and s3: "in_unit (tpr_aa (fst (analyze_bias d)))"
    and s4: "in_unit (tpr_other (fst (analyze_bias d)))"
    unfolding analyze_bias_def s_fpr_aa s_fpr_other s_tpr_aa s_tpr_other
    by (rule in_unit_zero_fill)+
  have s5: "african_american (rows d) \<noteq> [] \<longrightarrow>
        in_unit (selection_rate_aa (fst (analyze_bias d)))"
    and s6: "others (rows d) \<noteq> [] \<longrightarrow>
        in_unit (selection_rate_other (fst (analyze_bias d)))"
    by (simp_all add: analyze_bias_def s_sr_aa s_sr_other in_unit_mean)
  have s7: "african_american (rows d) \<noteq> [] \<and> others (rows d) \<noteq> [] \<and>
        (np_gt (selection_rate_aa (fst (analyze_bias d))) (Fl 0) \<or>
         np_gt (selection_rate_other (fst (analyze_bias d))) (Fl 0)) \<longrightarrow>
        nonneg_or_inf (disparate_impact (fst (analyze_bias d)))"
    unfolding analyze_bias_def using s_di_range [of d high_risk_threshold] by blast
  have f1: "in_unit (tpr_african_american (fst (calculate_fairness_metrics a)))"
    and f2: "in_unit (tpr_others (fst (calculate_fairness_metrics a)))"
    unfolding calculate_fairness_metrics_def f_tpr_aa f_tpr_others Let_def
    by (rule in_unit_zero_fill)+
  note f3 = f_scores_range [of 5 a, folded calculate_fairness_metrics_def]
  have f4: "data a \<noteq> [] \<longrightarrow> in_unit (accuracy (fst (calculate_fairness_metrics a)))"
    unfolding calculate_fairness_metrics_def using f_accuracy_range [of a 5] by blast
  have f5: "african_american (data a) \<noteq> [] \<longrightarrow>
        in_unit (selection_rate_african_american (fst (calculate_fairness_metrics a)))"
    and f6: "others (data a) \<noteq> [] \<longrightarrow>
        in_unit (selection_rate_others (fst (calculate_fairness_metrics a)))"
    by (simp_all add: calculate_fairness_metrics_def f_sr_aa f_sr_others in_unit_mean)
  have f7: "african_american (data a) \<noteq> [] \<longrightarrow>
        nonneg_or_inf (disparate_impact (fst (calculate_fairness_metrics a)))"
    unfolding calculate_fairness_metrics_def using f_di_range [of a 5] by blast
  have f8: "filter (\<lambda>r. \<not> two_year_recid r) (african_american (data a)) \<noteq> [] \<longrightarrow>
            in_unit (fpr_african_american (fst (calculate_fairness_metrics a))) \<and>
            in_unit (tnr_african_american (fst (calculate_fairness_metrics a)))"
    unfolding calculate_fairness_metrics_def f_tnr f_fpr_aa Let_def
    using f_fpr_range [of "african_american (data a)" 5] by blast
  have f9: "filter (\<lambda>r. \<not> two_year_recid r) (others (data a)) \<noteq> [] \<longrightarrow>
            in_unit (fpr_others (fst (calculate_fairness_metrics a))) \<and>
            in_unit (tnr_others (fst (calculate_fairness_metrics a)))"
    unfolding calculate_fairness_metrics_def f_tnr f_fpr_others Let_def
    using f_fpr_range [of "others (data a)" 5] by blast
  from s1 s2 s3 s4 s5 s6 s7 f1 f2 f3 f4 f5 f6 f7 f8 f9 show ?thesis
    by (intro conjI)
qed

theorem rates_in_unit_interval_witness:
  "african_american (rows
      \<lparr>rows = [\<lparr>race = ''African-American'', decile_score = 7, two_year_recid = True\<rparr>,
               \<lparr>race = ''African-American'', decile_score = 6, two_year_recid = False\<rparr>,
               \<lparr>race = ''Caucasian'', decile_score = 8, two_year_recid = True\<rparr>,
               \<lparr>race = ''Caucasian'', decile_score = 1, two_year_recid = False\<rparr>], high_risk = None\<rparr>) \<noteq> []
   \<and> others (rows
      \<lparr>rows = [\<lparr>race = ''African-American'', decile_score = 7, two_year_recid = True\<rparr>,
               \<lparr>race = ''African-American'', decile_score = 6, two_year_recid = False\<rparr>,
               \<lparr>race = ''Caucasian'', decile_score = 8, two_year_recid = True\<rparr>,
               \<lparr>race = ''Caucasian'', decile_score = 1, two_year_recid = False\<rparr>], high_risk = None\<rparr>) \<noteq> []
   \<and> np_gt (selection_rate_aa (fst (analyze_bias
      \<lparr>rows = [\<lparr>race = ''African-American'', decile_score = 7, two_year_recid = True\<rparr>,
               \<lparr>race = ''African-American'', decile_score = 6, two_year_recid = False\<rparr>,
               \<lparr>race = ''Caucasian'', decile_score = 8, two_year_recid = True\<rparr>,
               \<lparr>race = ''Caucasian'', decile_score = 1, two_year_recid = False\<rparr>], high_risk = None\<rparr>))) (Fl 0)
   \<and> in_unit (selection_rate_aa (fst (analyze_bias
      \<lparr>rows = [\<lparr>race = ''African-American'', decile_score = 7, two_year_recid = True\<rparr>,
               \<lparr>race = ''African-American'', decile_score = 6, two_year_recid = False\<rparr>,
               \<lparr>race = ''Caucasian'', decile_score = 8, two_year_recid = True\<rparr>,
               \<lparr>race = ''Caucasian'', decile_score = 1, two_year_recid = False\<rparr>], high_risk = None\<rparr>)))
   \<and> in_unit (selection_rate_other (fst (analyze_bias
      \<lparr>rows = [\<lparr>race = ''African-American'', decile_score = 7, two_year_recid = True\<rparr>,
               \<lparr>race = ''African-American'', decile_score = 6, two_year_recid = False\<rparr>,
               \<lparr>race = ''Caucasian'', decile_score = 8, two_year_recid = True\<rparr>,
               \<lparr>race = ''Caucasian'', decile_score = 1, two_year_recid = False\<rparr>], high_risk = None\<rparr>)))
   \<and> nonneg_or_inf (disparate_impact (fst (analyze_bias
      \<lparr>rows = [\<lparr>race = ''African-American'', decile_score = 7, two_year_recid = True\<rparr>,
               \<lparr>race = ''African-American'', decile_score = 6, two_year_recid = False\<rparr>,
               \<lparr>race = ''Caucasian'', decile_score = 8, two_year_recid = True\<rparr>,
               \<lparr>race = ''Caucasian'', decile_score = 1, two_year_recid = False\<rparr>], high_risk = None\<rparr>)))
   \<and> data
      \<lparr>data = [\<lparr>race = ''African-American'', decile_score = 7, two_year_recid = True\<rparr>,
               \<lparr>race = ''African-American'', decile_score = 6, two_year_recid = False\<rparr>,
               \<lparr>race = ''Caucasian'', decile_score = 8, two_year_recid = True\<rparr>,
               \<lparr>race = ''Caucasian'', decile_score = 1, two_year_recid = False\<rparr>]\<rparr> \<noteq> []
   \<and> in_unit (accuracy (fst (calculate_fairness_metrics
      \<lparr>data = [\<lparr>race = ''African-American'', decile_score = 7, two_year_recid = True\<rparr>,
               \<lparr>race = ''African-American'', decile_score = 6, two_year_recid = False\<rparr>,
               \<lparr>race = ''Caucasian'', decile_score = 8, two_year_recid = True\<rparr>,
               \<lparr>race = ''Caucasian'', decile_score = 1, two_year_recid = False\<rparr>]\<rparr>)))
   \<and> in_unit (selection_rate_african_american (fst (calculate_fairness_metrics
      \<lparr>data = [\<lparr>race = ''African-American'', decile_score = 7, two_year_recid = True\<rparr>,
               \<lparr>race = ''African-American'', decile_score = 6, two_year_recid = False\<rparr>,
               \<lparr>race = ''Caucasian'', decile_score = 8, two_year_recid = True\<rparr>,
               \<lparr>race = ''Caucasian'', decile_score = 1, two_year_recid = False\<rparr>]\<rparr>)))
   \<and> in_unit (selection_rate_others (fst (calculate_fairness_metrics
      \<lparr>data = [\<lparr>race = ''African-American'', decile_score = 7, two_year_recid = True\<rparr>,
               \<lparr>race = ''African-American'', decile_score = 6, two_year_recid = False\<rparr>,
               \<lparr>race = ''Caucasian'', decile_score = 8, two_year_recid = True\<rparr>,
               \<lparr>race = ''Caucasian'', decile_score = 1, two_year_recid = False\<rparr>]\<rparr>)))
   \<and> nonneg_or_inf (disparate_impact (fst (calculate_fairness_metrics
      \<lparr>data = [\<lparr>race = ''African-American'', decile_score = 7, two_year_recid = True\<rparr>,
               \<lparr>race = ''African-American'', decile_score = 6, two_year_recid = False\<rparr>,
               \<lparr>race = ''Caucasian'', decile_score = 8, two_year_recid = True\<rparr>,
               \<lparr>race = ''Caucasian'', decile_score = 1, two_year_recid = False\<rparr>]\<rparr>)))
   \<and> in_unit (fpr_african_american (fst (calculate_fairness_metrics
      \<lparr>data = [\<lparr>race = ''African-American'', decile_score = 7, two_year_recid = True\<rparr>,
               \<lparr>race = ''African-American'', decile_score = 6, two_year_recid = False\<rparr>,
               \<lparr>race = ''Caucasian'', decile_score = 8, two_year_recid = True\<rparr>,
               \<lparr>race = ''Caucasian'', decile_score = 1, two_year_recid = False\<rparr>]\<rparr>)))
   \<and> in_unit (tnr_others (fst (calculate_fairness_metrics
      \<lparr>data = [\<lparr>race = ''African-American'', decile_score = 7, two_year_recid = True\<rparr>,
               \<lparr>race = ''African-American'', decile_score = 6, two_year_recid = False\<rparr>,
               \<lparr>race = ''Caucasian'', decile_score = 8, two_year_recid = True\<rparr>,
               \<lparr>race = ''Caucasian'', decile_score = 1, two_year_recid = False\<rparr>]\<rparr>)))"
proof -
  let ?rs = "[\<lparr>race = ''African-American'', decile_score = 7, two_year_recid = True\<rparr>,
               \<lparr>race = ''African-American'', decile_score = 6, two_year_recid = False\<rparr>,
               \<lparr>race = ''Caucasian'', decile_score = 8, two_year_recid = True\<rparr>,
               \<lparr>race = ''Caucasian'', decile_score = 1, two_year_recid = False\<rparr>]"
  have h1: "african_american (rows \<lparr>rows = ?rs, high_risk = None\<rparr>) \<noteq> []"
    by code_simp
  have h2: "others (rows \<lparr>rows = ?rs, high_risk = None\<rparr>) \<noteq> []"
    by code_simp
  have h3: "african_american (data \<lparr>data = ?rs\<rparr>) \<noteq> []"
    by code_simp
  have h4: "others (data \<lparr>data = ?rs\<rparr>) \<noteq> []"
    by code_simp
  have h5: "np_gt (selection_rate_aa (fst (analyze_bias \<lparr>rows = ?rs, high_risk = None\<rparr>))) (Fl 0)"
    by code_simp
  have h6: "filter (\<lambda>r. \<not> two_year_recid r) (african_american (data \<lparr>data = ?rs\<rparr>)) \<noteq> []"
    by code_simp
  have h7: "filter (\<lambda>r. \<not> two_year_recid r) (others (data \<lparr>data = ?rs\<rparr>)) \<noteq> []"
    by code_simp
  have h8: "data \<lparr>data = ?rs\<rparr> \<noteq> []"
    by simp
  from rates_in_unit_interval [of "\<lparr>rows = ?rs, high_risk = None\<rparr>" "\<lparr>data = ?rs\<rparr>"]
    h1 h2 h3 h4 h5 h6 h7 h8
  show ?thesis
    by blast
qed

section \<open>Cohorts with identical distributions\<close>

lemma rate_eq:
  assumes "0 < n1" and "0 < n2" and "k1 * n2 = k2 * n1"
  shows "rate k1 n1 = rate k2 n2"
proof -
  have "(of_nat k1 :: rat) * of_nat n2 = of_nat k2 * of_nat n1"
    using assms(3) by (metis of_nat_mult)
  with assms(1,2) show ?thesis
    by (simp add: rate_def frac_eq_eq)
qed

lemma zero_fill_eq:
  assumes "0 < a" and "0 < b" and p: "p1 * b = p2 * a" and q: "q1 * b = q2 * (a::nat)"
  shows "(if p1 + q1 = 0 then Fl 0 else rate p1 (p1 + q1)) =
         (if p2 + q2 = 0 then Fl 0 else rate p2 (p2 + q2))"
proof -
  have s: "(p1 + q1) * b = (p2 + q2) * a"
    using p q by (simp add: add_mult_distrib)
  have z: "(p1 + q1 = 0) = (p2 + q2 = 0)"
    using s assms(1,2) by (metis mult_eq_0_iff less_numeral_extra(3))
  have "(p1 * q2) * a = p1 * (q1 * b)"
    using q by (simp add: mult.assoc)
  also have "\<dots> = q1 * (p2 * a)"
    using p by (simp add: mult.left_commute)
  finally have "(p1 * q2) * a = (p2 * q1) * a"
    by (simp add: mult.commute mult.left_commute)
  with assms(1) have c: "p1 * q2 = p2 * q1"
    by simp
  have x: "p1 * (p2 + q2) = p2 * (p1 + q1)"
    using c by (simp add: add_mult_distrib2 mult.commute)
  show ?thesis
  proof (cases "p1 + q1 = 0")
    case True
    with z show ?thesis by simp
  next
    case False
    with z have "0 < p1 + q1" "0 < p2 + q2" by auto
    from rate_eq [OF this x] False z show ?thesis by simp
  qed
qed

lemma cell_cohorts:
  "cell t dec out rs = cell t dec out (african_american rs) + cell t dec out (others rs)"
  by (induction rs) (auto simp: cell_def african_american_def others_def)

lemma flagged_count:
  "length (filter (\<lambda>r. t \<le> decile_score r) rs) = cell t True True rs + cell t True False rs"
  by (induction rs) (auto simp: cell_def)

lemma gap_zero: "in_unit x \<Longrightarrow> np_abs (np_sub x x) = Fl 0"
  by (cases x) simp_all

text \<open>The consequences of identical distributions, for one table.\<close>

lemma identical_selection_rates:
  assumes "identical_distributions t rs"
  shows "mean (map (high_risk_of t) (african_american rs)) = mean (map (high_risk_of t) (others rs))"
proof -
  let ?A = "african_american rs" and ?B = "others rs"
  from assms have ne: "?A \<noteq> []" "?B \<noteq> []"
    and tt: "cell t True True ?A * length ?B = cell t True True ?B * length ?A"
    and tf: "cell t True False ?A * length ?B = cell t True False ?B * length ?A"
    by (simp_all add: identical_distributions_def)
  have "(cell t True True ?A + cell t True False ?A) * length ?B =
        (cell t True True ?B + cell t True False ?B) * length ?A"
    using tt tf by (simp add: add_mult_distrib)
  with ne show ?thesis
    by (simp add: mean_high_risk_of rate_eq)
qed

lemma identical_flagged:
  assumes "identical_distributions t rs" and "filter (\<lambda>r. t \<le> decile_score r) rs \<noteq> []"
  shows "\<exists>q. 0 < q \<and> mean (map (high_risk_of t) (others rs)) = Fl q"
proof -
  let ?A = "african_american rs" and ?B = "others rs"
  from assms(1) have ne: "?A \<noteq> []" "?B \<noteq> []"
    and tt: "cell t True True ?A * length ?B = cell t True True ?B * length ?A"
    and tf: "cell t True False ?A * length ?B = cell t True False ?B * length ?A"
    by (simp_all add: identical_distributions_def)
  have e: "(cell t True True ?A + cell t True False ?A) * length ?B =
        (cell t True True ?B + cell t True False ?B) * length ?A"
    using tt tf by (simp add: add_mult_distrib)
  have "0 < cell t True True rs + cell t True False rs"
    using assms(2) flagged_count [of t rs] by (metis length_greater_0_conv)
  then have "0 < (cell t True True ?A + cell t True False ?A) + (cell t True True ?B + cell t True False ?B)"
    using cell_cohorts [of t True True rs] cell_cohorts [of t True False rs] by arith
  then have "0 < cell t True True ?B + cell t True False ?B"
    using e ne by (metis add_is_0 gr0I length_greater_0_conv mult_eq_0_iff)
  then have k: "(0::rat) < of_nat (cell t True True ?B + cell t True False ?B)"
    by (simp only: of_nat_0_less_iff)
  have n: "(0::rat) < of_nat (length ?B)"
    using ne(2) by simp
  from divide_pos_pos [OF k n] ne show ?thesis
    by (simp add: mean_high_risk_of rate_def)
qed

lemma identical_zero_filled:
  assumes "identical_distributions t rs"
  shows "(if cell t True out (african_american rs) + cell t False out (african_american rs) = 0 then Fl 0
          else rate (cell t True out (african_american rs))
                 (cell t True out (african_american rs) + cell t False out (african_american rs))) =
         (if cell t True out (others rs) + cell t False out (others rs) = 0 then Fl 0
          else rate (cell t True out (others rs))
                 (cell t True out (others rs) + cell t False out (others rs)))"
proof -
  from assms have "0 < length (others rs)" "0 < length (african_american rs)"
    by (simp_all add: identical_distributions_def)
  moreover from assms
  have "cell t True out (african_american rs) * length (others rs) =
        cell t True out (others rs) * length (african_american rs)"
       "cell t False out (african_american rs) * length (others rs) =
        cell t False out (others rs) * length (african_american rs)"
    by (cases out; simp add: identical_distributions_def)+
  ultimately show ?thesis
    by (intro zero_fill_eq [where a = "length (african_american rs)" and b = "length (others rs)"])
qed

lemma identical_negatives:
  assumes "identical_distributions t rs" and "filter (\<lambda>r. \<not> two_year_recid r) rs \<noteq> []"
  shows "0 < cell t True False (african_american rs) + cell t False False (african_american rs)"
    and "0 < cell t True False (others rs) + cell t False False (others rs)"
proof -
  let ?A = "african_american rs" and ?B = "others rs"
  from assms(1) have ne: "0 < length ?A" "0 < length ?B"
    and tf: "cell t True False ?A * length ?B = cell t True False ?B * length ?A"
    and ff: "cell t False False ?A * length ?B = cell t False False ?B * length ?A"
    by (simp_all add: identical_distributions_def)
  have e: "(cell t True False ?A + cell t False False ?A) * length ?B =
        (cell t True False ?B + cell t False False ?B) * length ?A"
    using tf ff by (simp add: add_mult_distrib)
  have "0 < cell t True False rs + cell t False False rs"
    using assms(2) no_recid_empty [of rs t] by simp
  then have pos: "0 < (cell t True False ?A + cell t False False ?A) + (cell t True False ?B + cell t False False ?B)"
    using cell_cohorts [of t True False rs] cell_cohorts [of t False False rs] by arith
  show "0 < cell t True False ?A + cell t False False ?A"
    using e ne pos by (metis add_is_0 gr0I mult_eq_0_iff)
  show "0 < cell t True False ?B + cell t False False ?B"
    using e ne pos by (metis add_is_0 gr0I mult_eq_0_iff)
qed

text \<open>
  Claim C8, as stated, fails when no row of either cohort is high risk: the cohorts are
  identically distributed, and \<^verbatim>\<open>disparate_impact\<close> is NaN in the simplified script
  (zero over zero) and \<^verbatim>\<open>float('inf')\<close> in the full script (the guard on the
  denominator), not 1.
\<close>

theorem identical_low_risk_cohorts:
  "identical_distributions 5
     [\<lparr>race = ''African-American'', decile_score = 2, two_year_recid = False\<rparr>,
      \<lparr>race = ''Caucasian'', decile_score = 2, two_year_recid = False\<rparr>]
   \<and> disparate_impact (fst (analyze_bias
       \<lparr>rows = [\<lparr>race = ''African-American'', decile_score = 2, two_year_recid = False\<rparr>,
                \<lparr>race = ''Caucasian'', decile_score = 2, two_year_recid = False\<rparr>], high_risk = None\<rparr>)) = NaN
   \<and> disparate_impact (fst (calculate_fairness_metrics
       \<lparr>data = [\<lparr>race = ''African-American'', decile_score = 2, two_year_recid = False\<rparr>,
                \<lparr>race = ''Caucasian'', decile_score = 2, two_year_recid = False\<rparr>]\<rparr>)) = PosInf"
  by code_simp

text \<open>
  Claim C8, amended. When the two cohorts have identical decision and outcome
  distributions, the gaps of the false positive rates and of the true positive rates are
  0 in the simplified script and \<^verbatim>\<open>tpr_difference\<close> is 0 in the full script;
  \<^verbatim>\<open>disparate_impact\<close> is 1 in both scripts when some row is high risk; and
  \<^verbatim>\<open>fpr_difference\<close> of the full script is 0 when some row has outcome 0.
\<close>

theorem identical_cohorts_have_no_disparity:
  assumes "identical_distributions 5 (rows d)" and "identical_distributions 5 (data a)"
  shows "(filter (\<lambda>r. 5 \<le> decile_score r) (rows d) \<noteq> [] \<longrightarrow>
            disparate_impact (fst (analyze_bias d)) = Fl 1)
       \<and> np_abs (np_sub (fpr_aa (fst (analyze_bias d))) (fpr_other (fst (analyze_bias d)))) = Fl 0
       \<and> np_abs (np_sub (tpr_aa (fst (analyze_bias d))) (tpr_other (fst (analyze_bias d)))) = Fl 0
       \<and> (filter (\<lambda>r. 5 \<le> decile_score r) (data a) \<noteq> [] \<longrightarrow>
            disparate_impact (fst (calculate_fairness_metrics a)) = Fl 1)
       \<and> tpr_difference (fst (calculate_fairness_metrics a)) = Fl 0
       \<and> (filter (\<lambda>r. \<not> two_year_recid r) (data a) \<noteq> [] \<longrightarrow>
            fpr_difference (fst (calculate_fairness_metrics a)) = Fl 0)"
proof -
  have c1: "disparate_impact (fst (analyze_bias d)) = Fl 1"
    if "filter (\<lambda>r. 5 \<le> decile_score r) (rows d) \<noteq> []"
  proof -
    from identical_flagged [OF assms(1) that]
    obtain q where "0 < q" "mean (map (high_risk_of 5) (others (rows d))) = Fl q" by blast
    then show ?thesis
      by (simp add: analyze_bias_def high_risk_threshold_def s_di identical_selection_rates [OF assms(1)])
  qed
  have c2: "np_abs (np_sub (fpr_aa (fst (analyze_bias d))) (fpr_other (fst (analyze_bias d)))) = Fl 0"
    unfolding analyze_bias_def high_risk_threshold_def s_fpr_aa s_fpr_other
      identical_zero_filled [OF assms(1), of False]
    by (rule gap_zero) (rule in_unit_zero_fill)
  have c3: "np_abs (np_sub (tpr_aa (fst (analyze_bias d))) (tpr_other (fst (analyze_bias d)))) = Fl 0"
    unfolding analyze_bias_def high_risk_threshold_def s_tpr_aa s_tpr_other
      identical_zero_filled [OF assms(1), of True]
    by (rule gap_zero) (rule in_unit_zero_fill)
  have c4: "disparate_impact (fst (calculate_fairness_metrics a)) = Fl 1"
    if "filter (\<lambda>r. 5 \<le> decile_score r) (data a) \<noteq> []"
  proof -
    from identical_flagged [OF assms(2) that]
    obtain q where "0 < q" "mean (map (high_risk_of 5) (others (data a))) = Fl q" by blast
    then show ?thesis
      by (simp add: calculate_fairness_metrics_def f_di identical_selection_rates [OF assms(2)] np_gt_def)
  qed
  have c5: "tpr_difference (fst (calculate_fairness_metrics a)) = Fl 0"
    unfolding calculate_fairness_metrics_def f_differences f_tpr_aa f_tpr_others Let_def
      identical_zero_filled [OF assms(2), of True]
    by (rule gap_zero) (rule in_unit_zero_fill)
  have c6: "fpr_difference (fst (calculate_fairness_metrics a)) = Fl 0"
    if "filter (\<lambda>r. \<not> two_year_recid r) (data a) \<noteq> []"
  proof -
    note pos = identical_negatives [OF assms(2) that]
    have e: "rate (cell 5 True False (african_american (data a)))
               (cell 5 True False (african_american (data a)) + cell 5 False False (african_american (data a))) =
             rate (cell 5 True False (others (data a)))
               (cell 5 True False (others (data a)) + cell 5 False False (others (data a)))"
      using identical_zero_filled [OF assms(2), of False] pos by (auto split: if_splits)
    have u: "in_unit (rate (cell 5 True False (others (data a)))
               (cell 5 True False (others (data a)) + cell 5 False False (others (data a))))"
      using pos(2) by (intro in_unit_rate) simp_all
    show ?thesis
      unfolding calculate_fairness_metrics_def f_differences f_fpr_aa f_fpr_others Let_def
        int_truediv_rate [OF pos(1)] int_truediv_rate [OF pos(2)] e
      by (rule gap_zero) (rule u)
  qed
  from c1 c2 c3 c4 c5 c6 show ?thesis by blast
qed

theorem identical_cohorts_have_no_disparity_witness:
  "identical_distributions 5 (rows
      \<lparr>rows = [\<lparr>race = ''African-American'', decile_score = 7, two_year_recid = True\<rparr>,
               \<lparr>race = ''African-American'', decile_score = 2, two_year_recid = False\<rparr>,
               \<lparr>race = ''Caucasian'', decile_score = 8, two_year_recid = True\<rparr>,
               \<lparr>race = ''Hispanic'', decile_score = 5, two_year_recid = True\<rparr>,
               \<lparr>race = ''Caucasian'', decile_score = 1, two_year_recid = False\<rparr>,
               \<lparr>race = ''Other'', decile_score = 3, two_year_recid = False\<rparr>], high_risk = None\<rparr>)
   \<and> disparate_impact (fst (analyze_bias
      \<lparr>rows = [\<lparr>race = ''African-American'', decile_score = 7, two_year_recid = True\<rparr>,
               \<lparr>race = ''African-American'', decile_score = 2, two_year_recid = False\<rparr>,
               \<lparr>race = ''Caucasian'', decile_score = 8, two_year_recid = True\<rparr>,
               \<lparr>race = ''Hispanic'', decile_score = 5, two_year_recid = True\<rparr>,
               \<lparr>race = ''Caucasian'', decile_score = 1, two_year_recid = False\<rparr>,
               \<lparr>race = ''Other'', decile_score = 3, two_year_recid = False\<rparr>], high_risk = None\<rparr>)) = Fl 1
   \<and> disparate_impact (fst (calculate_fairness_metrics
      \<lparr>data = [\<lparr>race = ''African-American'', decile_score = 7, two_year_recid = True\<rparr>,
               \<lparr>race = ''African-American'', decile_score = 2, two_year_recid = False\<rparr>,
               \<lparr>race = ''Caucasian'', decile_score = 8, two_year_recid = True\<rparr>,
               \<lparr>race = ''Hispanic'', decile_score = 5, two_year_recid = True\<rparr>,
               \<lparr>race = ''Caucasian'', decile_score = 1, two_year_recid = False\<rparr>,
               \<lparr>race = ''Other'', decile_score = 3, two_year_recid = False\<rparr>]\<rparr>)) = Fl 1
   \<and> fpr_difference (fst (calculate_fairness_metrics
      \<lparr>data = [\<lparr>race = ''African-American'', decile_score = 7, two_year_recid = True\<rparr>,
               \<lparr>race = ''African-American'', decile_score = 2, two_year_recid = False\<rparr>,
               \<lparr>race = ''Caucasian'', decile_score = 8, two_year_recid = True\<rparr>,
               \<lparr>race = ''Hispanic'', decile_score = 5, two_year_recid = True\<rparr>,
               \<lparr>race = ''Caucasian'', decile_score = 1, two_year_recid = False\<rparr>,
               \<lparr>race = ''Other'', decile_score = 3, two_year_recid = False\<rparr>]\<rparr>)) = Fl 0"
proof -
  let ?rs = "[\<lparr>race = ''African-American'', decile_score = 7, two_year_recid = True\<rparr>,
               \<lparr>race = ''African-American'', decile_score = 2, two_year_recid = False\<rparr>,
               \<lparr>race = ''Caucasian'', decile_score = 8, two_year_recid = True\<rparr>,
               \<lparr>race = ''Hispanic'', decile_score = 5, two_year_recid = True\<rparr>,
               \<lparr>race = ''Caucasian'', decile_score = 1, two_year_recid = False\<rparr>,
               \<lparr>race = ''Other'', decile_score = 3, two_year_recid = False\<rparr>]"
  have h1: "identical_distributions 5 (rows \<lparr>rows = ?rs, high_risk = None\<rparr>)"
    by code_simp
  have h2: "identical_distributions 5 (data \<lparr>data = ?rs\<rparr>)"
    by code_simp
  have h3: "filter (\<lambda>r. 5 \<le> decile_score r) (rows \<lparr>rows = ?rs, high_risk = None\<rparr>) \<noteq> []"
    by simp
  have h4: "filter (\<lambda>r. 5 \<le> decile_score r) (data \<lparr>data = ?rs\<rparr>) \<noteq> []"
    by simp
  have h5: "filter (\<lambda>r. \<not> two_year_recid r) (data \<lparr>data = ?rs\<rparr>) \<noteq> []"
    by simp
  from identical_cohorts_have_no_disparity [OF h1 h2] h1 h3 h4 h5 show ?thesis
    by blast
qed

section \<open>Raising the threshold\<close>

lemma flagged_antitone:
  "t1 \<le> t2 \<Longrightarrow>
   cell t2 True True rs + cell t2 True False rs \<le> cell t1 True True rs + cell t1 True False rs"
  by (induction rs) (auto simp: cell_def)

lemma mean_antitone:
  assumes "t1 \<le> t2"
  shows "not_increased (mean (map (high_risk_of t1) rs)) (mean (map (high_risk_of t2) rs))"
    and "\<not> np_gt (mean (map (high_risk_of t2) rs)) (mean (map (high_risk_of t1) rs))"
proof -
  have le: "(of_nat (cell t2 True True rs + cell t2 True False rs) :: rat) / of_nat (length rs)
      \<le> of_nat (cell t1 True True rs + cell t1 True False rs) / of_nat (length rs)"
    using flagged_antitone [OF assms, of rs] by (intro divide_right_mono) simp_all
  show "not_increased (mean (map (high_risk_of t1) rs)) (mean (map (high_risk_of t2) rs))"
    using le by (simp add: mean_high_risk_of rate_def not_increased_def)
  show "\<not> np_gt (mean (map (high_risk_of t2) rs)) (mean (map (high_risk_of t1) rs))"
    using le by (simp add: mean_high_risk_of rate_def np_gt_def)
qed

text \<open>
  Claim C9. For thresholds \<open>t1 \<le> t2\<close>, the selection rate of either cohort computed with
  \<open>t2\<close> is not greater than the one computed with \<open>t1\<close>, in both scripts: both are
  finite and the second is at most the first, or the cohort is empty and both are NaN.
\<close>

theorem selection_rate_antitone:
  assumes "t1 \<le> t2"
  shows "not_increased (selection_rate_aa (fst (analyze_bias_at t1 d)))
                       (selection_rate_aa (fst (analyze_bias_at t2 d)))
       \<and> not_increased (selection_rate_other (fst (analyze_bias_at t1 d)))
                       (selection_rate_other (fst (analyze_bias_at t2 d)))
       \<and> not_increased (selection_rate_african_american (fst (calculate_fairness_metrics_at t1 a)))
                       (selection_rate_african_american (fst (calculate_fairness_metrics_at t2 a)))
       \<and> not_increased (selection_rate_others (fst (calculate_fairness_metrics_at t1 a)))
                       (selection_rate_others (fst (calculate_fairness_metrics_at t2 a)))
       \<and> \<not> np_gt (selection_rate_aa (fst (analyze_bias_at t2 d)))
                  (selection_rate_aa (fst (analyze_bias_at t1 d)))
       \<and> \<not> np_gt (selection_rate_other (fst (analyze_bias_at t2 d)))
                  (selection_rate_other (fst (analyze_bias_at t1 d)))
       \<and> \<not> np_gt (selection_rate_african_american (fst (calculate_fairness_metrics_at t2 a)))
                  (selection_rate_african_american (fst (calculate_fairness_metrics_at t1 a)))
       \<and> \<not> np_gt (selection_rate_others (fst (calculate_fairness_metrics_at t2 a)))
                  (selection_rate_others (fst (calculate_fairness_metrics_at t1 a)))"
  unfolding s_sr_aa s_sr_other f_sr_aa f_sr_others
  using mean_antitone [OF assms] by blast

theorem selection_rate_antitone_witness:
  "(5::int) \<le> 8
   \<and> not_increased
       (selection_rate_aa (fst (analyze_bias_at 5
          \<lparr>rows = [\<lparr>race = ''African-American'', decile_score = 7, two_year_recid = True\<rparr>,
                   \<lparr>race = ''African-American'', decile_score = 9, two_year_recid = False\<rparr>,
                   \<lparr>race = ''Caucasian'', decile_score = 6, two_year_recid = False\<rparr>], high_risk = None\<rparr>)))
       (selection_rate_aa (fst (analyze_bias_at 8
          \<lparr>rows = [\<lparr>race = ''African-American'', decile_score = 7, two_year_recid = True\<rparr>,
                   \<lparr>race = ''African-American'', decile_score = 9, two_year_recid = False\<rparr>,
                   \<lparr>race = ''Caucasian'', decile_score = 6, two_year_recid = False\<rparr>], high_risk = None\<rparr>)))
   \<and> not_increased
       (selection_rate_others (fst (calculate_fairness_metrics_at 5
          \<lparr>data = [\<lparr>race = ''African-American'', decile_score = 7, two_year_recid = True\<rparr>,
                   \<lparr>race = ''African-American'', decile_score = 9, two_year_recid = False\<rparr>,
                   \<lparr>race = ''Caucasian'', decile_score = 6, two_year_recid = False\<rparr>]\<rparr>)))
       (selection_rate_others (fst (calculate_fairness_metrics_at 8
          \<lparr>data = [\<lparr>race = ''African-American'', decile_score = 7, two_year_recid = True\<rparr>,
                   \<lparr>race = ''African-American'', decile_score = 9, two_year_recid = False\<rparr>,
                   \<lparr>race = ''Caucasian'', decile_score = 6, two_year_recid = False\<rparr>]\<rparr>)))"
proof -
  have h: "(5::int) \<le> 8" by simp
  from selection_rate_antitone [OF h] h show ?thesis by blast
qed

end
